theory Spec2Isabelle
  imports Main "HOL-Library.Word"
begin

section \<open>Strings, bytes and the platform's text functions\<close>

text \<open>
  The component \<^verbatim>\<open>MainComponent\<close> of \<^verbatim>\<open>dynamic-react-editor.js\<close> is embedded
  function by function. A JavaScript string is a sequence of UTF-16 code units, a chunk
  of a response body (a \<^verbatim>\<open>Uint8Array\<close>) a sequence of bytes. String literals of
  the source are ASCII and are written through \<open>js\<close>.
\<close>

type_synonym jsstring = "16 word list"
type_synonym bytes = "8 word list"

definition js :: "string \<Rightarrow> jsstring" where
  "js s = map (\<lambda>c. of_nat (of_char c)) s"

text \<open>
  \<^verbatim>\<open>String.prototype.trim\<close> removes white space and line terminators (ECMAScript
  \<^verbatim>\<open>WhiteSpace\<close> and \<^verbatim>\<open>LineTerminator\<close>) from both ends.
\<close>

definition isWhiteSpace :: "16 word \<Rightarrow> bool" where
  "isWhiteSpace c \<longleftrightarrow>
     c \<in> set [0x0009, 0x000A, 0x000B, 0x000C, 0x000D, 0x0020, 0x00A0, 0x1680,
              0x2000, 0x2001, 0x2002, 0x2003, 0x2004, 0x2005, 0x2006, 0x2007,
              0x2008, 0x2009, 0x200A, 0x2028, 0x2029, 0x202F, 0x205F, 0x3000, 0xFEFF]"

definition trim :: "jsstring \<Rightarrow> jsstring" where
  "trim s = rev (dropWhile isWhiteSpace (rev (dropWhile isWhiteSpace s)))"

definition startsWith :: "jsstring \<Rightarrow> jsstring \<Rightarrow> bool" where
  "startsWith s p \<longleftrightarrow> take (length p) s = p"

text \<open>Template literals print a number in decimal (\<^verbatim>\<open>${response.status}\<close>).\<close>

function digits :: "nat \<Rightarrow> string" where
  "digits n =
     (if n < 10 then [char_of (48 + n)]
      else digits (n div 10) @ [char_of (48 + n mod 10)])"
  by pat_completeness auto
termination
  by (relation "measure id") auto

declare digits.simps [simp del]

definition numberToString :: "nat \<Rightarrow> jsstring" where
  "numberToString n = js (digits n)"

subsection \<open>\<^verbatim>\<open>new TextDecoder().decode(value)\<close>\<close>

text \<open>
  The decoder of the platform, as the Encoding Standard gives it for UTF-8 with the
  default options (not fatal, the byte order mark not ignored, no \<^verbatim>\<open>stream\<close> flag):
  a malformed or truncated sequence becomes U+FFFD, the end of the input flushes a
  pending sequence as U+FFFD, and a leading U+FEFF is dropped. The decoder state is the
  code point being built, the bytes still needed and seen, and the bounds of the next
  continuation byte.
\<close>

record utf8_decoder =
  code_point :: nat
  bytes_seen :: nat
  bytes_needed :: nat
  lower_boundary :: nat
  upper_boundary :: nat

definition utf8_initial :: utf8_decoder where
  "utf8_initial = \<lparr>code_point = 0, bytes_seen = 0, bytes_needed = 0,
                    lower_boundary = 0x80, upper_boundary = 0xBF\<rparr>"

text \<open>A byte read while no sequence is pending: the output and the next state.\<close>

definition utf8_lead :: "nat \<Rightarrow> nat list \<times> utf8_decoder" where
  "utf8_lead b =
     (if b \<le> 0x7F then ([b], utf8_initial)
      else if 0xC2 \<le> b \<and> b \<le> 0xDF then
        ([], utf8_initial\<lparr>bytes_needed := 1, code_point := b mod 0x20\<rparr>)
      else if 0xE0 \<le> b \<and> b \<le> 0xEF then
        ([], utf8_initial\<lparr>bytes_needed := 2, code_point := b mod 0x10,
                           lower_boundary := (if b = 0xE0 then 0xA0 else 0x80),
                           upper_boundary := (if b = 0xED then 0x9F else 0xBF)\<rparr>)
      else if 0xF0 \<le> b \<and> b \<le> 0xF4 then
        ([], utf8_initial\<lparr>bytes_needed := 3, code_point := b mod 0x08,
                           lower_boundary := (if b = 0xF0 then 0x90 else 0x80),
                           upper_boundary := (if b = 0xF4 then 0x8F else 0xBF)\<rparr>)
      else ([0xFFFD], utf8_initial))"

fun utf8_run :: "utf8_decoder \<Rightarrow> nat list \<Rightarrow> nat list" where
  "utf8_run d [] = (if bytes_needed d \<noteq> 0 then [0xFFFD] else [])"
| "utf8_run d (b # bs) =
     (if bytes_needed d = 0 then fst (utf8_lead b) @ utf8_run (snd (utf8_lead b)) bs
      else if b < lower_boundary d \<or> upper_boundary d < b then
        0xFFFD # fst (utf8_lead b) @ utf8_run (snd (utf8_lead b)) bs
      else if bytes_seen d + 1 \<noteq> bytes_needed d then
        utf8_run (d\<lparr>lower_boundary := 0x80, upper_boundary := 0xBF,
                    code_point := code_point d * 0x40 + b mod 0x40,
                    bytes_seen := bytes_seen d + 1\<rparr>) bs
      else (code_point d * 0x40 + b mod 0x40) # utf8_run utf8_initial bs)"

definition stripBOM :: "nat list \<Rightarrow> nat list" where
  "stripBOM cps = (case cps of [] \<Rightarrow> [] | c # cs \<Rightarrow> if c = 0xFEFF then cs else c # cs)"

text \<open>A code point as UTF-16 code units (a surrogate pair above U+FFFF).\<close>

definition utf16 :: "nat \<Rightarrow> jsstring" where
  "utf16 cp =
     (if cp < 0x10000 then [of_nat cp]
      else [of_nat (0xD800 + (cp - 0x10000) div 0x400),
            of_nat (0xDC00 + (cp - 0x10000) mod 0x400)])"

definition TextDecoder_decode :: "bytes \<Rightarrow> jsstring" where
  "TextDecoder_decode v = concat (map utf16 (stripBOM (utf8_run utf8_initial (map unat v))))"

section \<open>The session state\<close>

text \<open>
  \<^verbatim>\<open>loadingStatus\<close> holds one of the four strings \<^verbatim>\<open>"idle"\<close>,
  \<^verbatim>\<open>"loading"\<close>, \<^verbatim>\<open>"ready"\<close> and \<^verbatim>\<open>"error"\<close>.
\<close>

datatype status = St_idle | St_loading | St_ready | St_error

text \<open>
  The values a compiled snippet can leave in \<^verbatim>\<open>module.exports\<close>: a function (a
  component, named), a string, an object with its own enumerable properties, or
  \<^verbatim>\<open>undefined\<close> and \<^verbatim>\<open>null\<close>.
\<close>

datatype jsvalue =
    Undefined
  | Null
  | Str jsstring
  | Func jsstring
  | Obj "(jsstring \<times> jsvalue) list"

text \<open>What \<^verbatim>\<open>React.createElement(type, props)\<close> returns.\<close>

record element =
  el_type :: jsvalue
  el_props :: jsvalue

record state =
  error :: "jsstring option"
  loadingStatus :: status
  preview :: "element option"
  code :: jsstring
  streamingResponse :: jsstring
  aiPrompt :: jsstring
  isUpdating :: bool
  retryCount :: nat
  customPrompts :: "jsstring list"
  history :: "jsstring list"

text \<open>
  The initial state of \<^verbatim>\<open>useState\<close>. The saved prompts are read from
  \<^verbatim>\<open>localStorage\<close>: \<open>None\<close> stands for a missing, unparsable or falsy entry.
\<close>

definition initialState :: "jsstring \<Rightarrow> jsstring list option \<Rightarrow> state" where
  "initialState initialCode stored =
     \<lparr>error = None, loadingStatus = St_idle, preview = None, code = initialCode,
      streamingResponse = [], aiPrompt = [], isUpdating = False, retryCount = 0,
      customPrompts = (case stored of Some ps \<Rightarrow> ps | None \<Rightarrow> []),
      history = []\<rparr>"

subsection \<open>\<^verbatim>\<open>updateState\<close>\<close>

text \<open>
  \<^verbatim>\<open>updateState(updates)\<close> is \<^verbatim>\<open>setState((prev) => ({ ...prev, ...updates }))\<close>.
  Its callers pass either an object literal, whose properties are listed here in the
  order written, or an arrow function \<^verbatim>\<open>(prevState) => ({...})\<close>. Object spread
  copies the own enumerable properties of its operand. An arrow function has none (its
  \<^verbatim>\<open>length\<close> and \<^verbatim>\<open>name\<close> are not enumerable) and \<^verbatim>\<open>updateState\<close> never
  calls it, so spreading a function adds nothing to the copy of \<open>prev\<close>.
\<close>

datatype property =
    P_error "jsstring option"
  | P_loadingStatus status
  | P_preview "element option"
  | P_code jsstring
  | P_streamingResponse jsstring
  | P_aiPrompt jsstring
  | P_isUpdating bool
  | P_retryCount nat
  | P_customPrompts "jsstring list"
  | P_history "jsstring list"

datatype updates =
    Object "property list"
  | Function "state \<Rightarrow> property list"

fun assign :: "state \<Rightarrow> property \<Rightarrow> state" where
  "assign s (P_error v) = s\<lparr>error := v\<rparr>"
| "assign s (P_loadingStatus v) = s\<lparr>loadingStatus := v\<rparr>"
| "assign s (P_preview v) = s\<lparr>preview := v\<rparr>"
| "assign s (P_code v) = s\<lparr>code := v\<rparr>"
| "assign s (P_streamingResponse v) = s\<lparr>streamingResponse := v\<rparr>"
| "assign s (P_aiPrompt v) = s\<lparr>aiPrompt := v\<rparr>"
| "assign s (P_isUpdating v) = s\<lparr>isUpdating := v\<rparr>"
| "assign s (P_retryCount v) = s\<lparr>retryCount := v\<rparr>"
| "assign s (P_customPrompts v) = s\<lparr>customPrompts := v\<rparr>"
| "assign s (P_history v) = s\<lparr>history := v\<rparr>"

fun ownEnumerableProperties :: "updates \<Rightarrow> property list" where
  "ownEnumerableProperties (Object ps) = ps"
| "ownEnumerableProperties (Function f) = []"

definition updateState :: "updates \<Rightarrow> state \<Rightarrow> state" where
  "updateState updates prev = foldl assign prev (ownEnumerableProperties updates)"

section \<open>The surroundings of the component\<close>

text \<open>
  \<^verbatim>\<open>refs.babel.current\<close> holds the compiler handle. Only its \<^verbatim>\<open>transform\<close>
  method is used, always with the preset \<^verbatim>\<open>react\<close>, the file name
  \<^verbatim>\<open>preview.jsx\<close> and the source type \<^verbatim>\<open>module\<close>: the handle is the function
  from the source text to the \<^verbatim>\<open>code\<close> of the result, or to the value it throws
  (\<open>Inl\<close>).

  Every \<^verbatim>\<open>catch (err)\<close> of the component reads \<^verbatim>\<open>err.message\<close>. A thrown value
  is therefore one of two kinds: \<^verbatim>\<open>null\<close> or \<^verbatim>\<open>undefined\<close>, on which reading
  \<^verbatim>\<open>message\<close> throws a \<^verbatim>\<open>TypeError\<close> inside the \<^verbatim>\<open>catch\<close> block itself,
  or any other value, given by the text that \<^verbatim>\<open>${err.message}\<close> prints for it.
\<close>

datatype thrown = Nullish | Thrown jsstring

type_synonym babel = "jsstring \<Rightarrow> thrown + jsstring"

record script =
  src :: jsstring
  async :: bool

record jsmodule =
  exports :: jsvalue

text \<open>
  The props of the component and what the platform does during one handler: the
  environment variable, \<^verbatim>\<open>window.Babel\<close> once the script has run, whether the
  script element fires \<^verbatim>\<open>onload\<close> or \<^verbatim>\<open>onerror\<close>, the message of the
  \<^verbatim>\<open>TypeError\<close> for reading the named property of \<^verbatim>\<open>undefined\<close> or
  \<^verbatim>\<open>null\<close>, the \<^verbatim>\<open>Function\<close> constructor (parameter names and body to the
  message of a \<^verbatim>\<open>SyntaxError\<close>, if any), the call of the constructed function on the
  module, \<^verbatim>\<open>React.createElement\<close>, and whether \<^verbatim>\<open>localStorage.setItem\<close>
  throws (the storage is full or not available).
\<close>

record env =
  process_env_BABEL_CDN_URL :: "jsstring option"
  previewProps :: jsvalue
  noInlineStyles :: bool
  window_Babel :: "babel option"
  script_loads :: bool
  TypeError_message :: "jsstring \<Rightarrow> jsstring"
  new_Function :: "jsstring list \<Rightarrow> jsstring \<Rightarrow> jsstring option"
  call_Function :: "jsstring \<Rightarrow> jsmodule \<Rightarrow> thrown + jsmodule"
  createElement :: "jsvalue \<Rightarrow> jsvalue \<Rightarrow> thrown + element"
  setItem_throws :: bool

text \<open>
  The state of one mounted component: the React state, the two refs, the script
  elements appended to \<^verbatim>\<open>document.head\<close> (each one a fetch of the compiler), and the
  prompts saved in \<^verbatim>\<open>localStorage\<close>.
\<close>

record world =
  ui :: state
  babel_current :: "babel option"
  babelLoaded_current :: bool
  document_head :: "script list"
  localStorage_customPrompts :: "jsstring list option"

definition mount :: "jsstring \<Rightarrow> jsstring list option \<Rightarrow> world" where
  "mount initialCode stored =
     \<lparr>ui = initialState initialCode stored, babel_current = None,
      babelLoaded_current = False, document_head = [],
      localStorage_customPrompts = stored\<rparr>"

definition setState :: "updates \<Rightarrow> world \<Rightarrow> world" where
  "setState updates w = w\<lparr>ui := updateState updates (ui w)\<rparr>"


definition BABEL_CDN_URL :: "env \<Rightarrow> jsstring" where
  "BABEL_CDN_URL e =
     (case process_env_BABEL_CDN_URL e of
        Some url \<Rightarrow> if url \<noteq> [] then url
          else js ''https://cdnjs.cloudflare.com/ajax/libs/babel-standalone/7.26.1/babel.min.js''
      | None \<Rightarrow> js ''https://cdnjs.cloudflare.com/ajax/libs/babel-standalone/7.26.1/babel.min.js'')"

section \<open>Loading the compiler: \<^verbatim>\<open>loadBabel\<close>\<close>

text \<open>
  \<^verbatim>\<open>loadBabel\<close> returns a resolved promise when the refs say the compiler is
  loaded. Otherwise it sets the status, appends a new script element and returns a
  promise that the callbacks of that element settle later.
\<close>

datatype promise = Resolved | Pending

definition loadBabel :: "env \<Rightarrow> world \<Rightarrow> world \<times> promise" where
  "loadBabel e w =
     (if babelLoaded_current w \<and> babel_current w \<noteq> None then (w, Resolved)
      else ((setState (Object [P_loadingStatus St_loading]) w)
              \<lparr>document_head := document_head w @ [\<lparr>src = BABEL_CDN_URL e, async = True\<rparr>]\<rparr>,
            Pending))"

definition script_onload :: "env \<Rightarrow> world \<Rightarrow> world" where
  "script_onload e w =
     setState (Object [P_loadingStatus St_idle])
       (w\<lparr>babel_current := window_Babel e, babelLoaded_current := True\<rparr>)"

definition script_onerror :: "world \<Rightarrow> world" where
  "script_onerror w =
     setState (Object [P_error (Some (js ''Failed to load Babel'')),
                       P_loadingStatus St_error]) w"

text \<open>
  \<^verbatim>\<open>await loadBabel()\<close>: a pending promise is settled by the script's callback;
  \<open>Some\<close> is the value of the rejection, the \<^verbatim>\<open>Error\<close> of line 99.
\<close>

definition await_promise :: "env \<Rightarrow> promise \<Rightarrow> world \<Rightarrow> world \<times> thrown option" where
  "await_promise e p w =
     (case p of
        Resolved \<Rightarrow> (w, None)
      | Pending \<Rightarrow>
          if script_loads e then (script_onload e w, None)
          else (script_onerror w, Some (Thrown (js ''Failed to load Babel''))))"

section \<open>The render cycle\<close>

subsection \<open>\<^verbatim>\<open>currentCode.replace(/style=\{\{.*?\}\}/g, "")\<close>\<close>

definition isLineTerminator :: "16 word \<Rightarrow> bool" where
  "isLineTerminator c \<longleftrightarrow> c \<in> set [0x000A, 0x000D, 0x2028, 0x2029]"

text \<open>
  The lazy \<^verbatim>\<open>.*?\}\}\<close>: the text after the first \<^verbatim>\<open>}}\<close> that no line
  terminator precedes, if there is one.
\<close>

fun matchLazyClose :: "jsstring \<Rightarrow> jsstring option" where
  "matchLazyClose (c # d # cs) =
     (if c = 0x7D \<and> d = 0x7D then Some cs
      else if isLineTerminator c then None
      else matchLazyClose (d # cs))"
| "matchLazyClose cs = None"

function removeInlineStyles :: "jsstring \<Rightarrow> jsstring" where
  "removeInlineStyles [] = []"
| "removeInlineStyles (c # cs) =
     (if startsWith (c # cs) (js ''style={{'') then
        (case matchLazyClose (drop 8 (c # cs)) of
           Some r \<Rightarrow> removeInlineStyles r
         | None \<Rightarrow> c # removeInlineStyles cs)
      else c # removeInlineStyles cs)"
  by pat_completeness auto
termination
proof (relation "measure length")
  show "wf (measure length)" by simp
next
  fix c :: "16 word" and cs r :: jsstring
  have shorter: "matchLazyClose xs = Some y \<Longrightarrow> length y < length xs" for xs y
    by (induction xs rule: matchLazyClose.induct) (auto split: if_splits)
  assume "matchLazyClose (drop 8 (c # cs)) = Some r"
  then have "length r < length (drop 8 (c # cs))"
    by (rule shorter)
  then show "(r, c # cs) \<in> measure length" by simp
qed simp_all

subsection \<open>\<^verbatim>\<open>transpileCode\<close>\<close>

text \<open>
  \<^verbatim>\<open>transpileCode\<close> returns the compiled text, or \<^verbatim>\<open>null\<close> from its
  \<^verbatim>\<open>catch\<close> block; when the \<^verbatim>\<open>catch\<close> block itself throws, the promise of
  \<^verbatim>\<open>transpileCode\<close> rejects and no state is written.
\<close>

datatype transpiled = TranspiledCode jsstring | ReturnsNull | Rejects

definition transpileCode_catch :: "thrown \<Rightarrow> world \<Rightarrow> world \<times> transpiled" where
  "transpileCode_catch err w =
     (case err of
        Nullish \<Rightarrow> (w, Rejects)
      | Thrown message \<Rightarrow>
          (setState (Object [P_error (Some (js ''Error during transpilation: '' @ message)),
                             P_loadingStatus St_error]) w,
           ReturnsNull))"

definition transform_call :: "env \<Rightarrow> jsstring \<Rightarrow> world \<Rightarrow> world \<times> transpiled" where
  "transform_call e transformedCode w =
     (case babel_current w of
        None \<Rightarrow> transpileCode_catch (Thrown (TypeError_message e (js ''transform''))) w
      | Some transform \<Rightarrow>
          (case transform transformedCode of
             Inl err \<Rightarrow> transpileCode_catch err w
           | Inr c \<Rightarrow> (w, TranspiledCode c)))"

definition transpileCode :: "env \<Rightarrow> jsstring \<Rightarrow> world \<Rightarrow> world \<times> transpiled" where
  "transpileCode e currentCode w =
     (case await_promise e (snd (loadBabel e w)) (fst (loadBabel e w)) of
        (w2, Some err) \<Rightarrow> transpileCode_catch err w2
      | (w2, None) \<Rightarrow>
          transform_call e
            (if noInlineStyles e then removeInlineStyles currentCode else currentCode) w2)"

subsection \<open>\<^verbatim>\<open>renderComponent\<close>\<close>

text \<open>
  The \<^verbatim>\<open>try\<close> block of \<^verbatim>\<open>renderComponent\<close> (lines 132 to 150): the compiled
  text becomes the body of a function of \<^verbatim>\<open>React\<close>, \<^verbatim>\<open>useState\<close>,
  \<^verbatim>\<open>exports\<close> and \<^verbatim>\<open>module\<close>, which is called on a module whose exports are
  the empty object; whatever \<^verbatim>\<open>module.exports\<close> holds afterwards goes to
  \<^verbatim>\<open>React.createElement\<close>. Nothing inspects the exported value. The
  \<^verbatim>\<open>catch\<close> block of line 145 writes the error state, unless the value thrown is
  \<^verbatim>\<open>null\<close> or \<^verbatim>\<open>undefined\<close>: then line 147 throws, \<^verbatim>\<open>renderComponent\<close>
  rejects and the state stays as it was. A \<^verbatim>\<open>SyntaxError\<close> of the
  \<^verbatim>\<open>Function\<close> constructor is an object with a message.
\<close>

definition execute_catch :: "thrown \<Rightarrow> world \<Rightarrow> world" where
  "execute_catch err w =
     (case err of
        Nullish \<Rightarrow> w
      | Thrown message \<Rightarrow>
          setState (Object [P_error (Some (js ''Runtime error: '' @ message)),
                            P_loadingStatus St_error]) w)"

definition execute :: "env \<Rightarrow> jsstring \<Rightarrow> world \<Rightarrow> world" where
  "execute e transpiledCode w =
     (case new_Function e [js ''React'', js ''useState'', js ''exports'', js ''module'']
             transpiledCode of
        Some message \<Rightarrow> execute_catch (Thrown message) w
      | None \<Rightarrow>
          (case call_Function e transpiledCode \<lparr>exports = Obj []\<rparr> of
             Inl err \<Rightarrow> execute_catch err w
           | Inr module \<Rightarrow>
               (case createElement e (exports module) (previewProps e) of
                  Inl err \<Rightarrow> execute_catch err w
                | Inr el \<Rightarrow>
                    setState (Object [P_preview (Some el), P_loadingStatus St_ready]) w)))"

text \<open>
  \<open>st\<close> is the state of the render that created the callback (it reads
  \<^verbatim>\<open>state.code\<close>), \<open>w\<close> the world it runs in. \<^verbatim>\<open>!transpiledCode\<close> holds for
  \<^verbatim>\<open>null\<close> and for the empty string; a rejection of \<^verbatim>\<open>transpileCode\<close> ends
  \<^verbatim>\<open>renderComponent\<close> at line 129. No caller awaits the promise of
  \<^verbatim>\<open>renderComponent\<close>, so what remains of a call is the world it leaves.
\<close>

definition renderComponent :: "env \<Rightarrow> state \<Rightarrow> world \<Rightarrow> world" where
  "renderComponent e st w =
     (case transpileCode e (code st) w of
        (w1, Rejects) \<Rightarrow> w1
      | (w1, ReturnsNull) \<Rightarrow> w1
      | (w1, TranspiledCode transpiledCode) \<Rightarrow>
          if transpiledCode = [] then w1 else execute e transpiledCode w1)"

text \<open>The effect of lines 261 to 269, run after a render of the state \<open>ui w\<close>.\<close>

definition renderTrigger :: "state \<Rightarrow> bool" where
  "renderTrigger st \<longleftrightarrow>
     loadingStatus st = St_idle \<and> trim (code st) \<noteq> [] \<and> \<not> isUpdating st"

definition renderEffect :: "env \<Rightarrow> world \<Rightarrow> world" where
  "renderEffect e w = (if renderTrigger (ui w) then renderComponent e (ui w) w else w)"

section \<open>The assistant update: \<^verbatim>\<open>updateWithAI\<close>\<close>

text \<open>
  What \<^verbatim>\<open>fetch\<close> gives: a rejection with the value thrown, or a response with its
  \<^verbatim>\<open>ok\<close> flag, its \<^verbatim>\<open>status\<close> and its \<^verbatim>\<open>body\<close>, which is
  \<^verbatim>\<open>null\<close> for a response without content. The stream of a body is the chunks its
  reader delivers before \<^verbatim>\<open>done\<close>, and the value of a rejected \<^verbatim>\<open>read\<close>
  after them, if any.
\<close>

record stream =
  chunks :: "bytes list"
  read_fault :: "thrown option"

record response =
  ok :: bool
  status :: nat
  body :: "stream option"

datatype fetched = Rejected thrown | Responded response

text \<open>The \<^verbatim>\<open>while (true)\<close> loop of lines 186 to 190.\<close>

fun accumulate :: "jsstring \<Rightarrow> bytes list \<Rightarrow> jsstring" where
  "accumulate aiResponse [] = aiResponse"
| "accumulate aiResponse (v # rest) = accumulate (aiResponse @ TextDecoder_decode v) rest"

definition isValidJavaScript :: "env \<Rightarrow> jsstring \<Rightarrow> bool" where
  "isValidJavaScript e c \<longleftrightarrow> new_Function e [] c = None"

text \<open>
  The \<^verbatim>\<open>catch\<close> block of lines 218 to 223. When the value caught is
  \<^verbatim>\<open>null\<close> or \<^verbatim>\<open>undefined\<close>, line 220 throws and nothing is written.
\<close>

definition updateWithAI_catch :: "thrown \<Rightarrow> world \<Rightarrow> world" where
  "updateWithAI_catch err w =
     (case err of
        Nullish \<Rightarrow> w
      | Thrown message \<Rightarrow>
          setState (Object [P_error (Some (js ''AI update failed: '' @ message)),
                            P_isUpdating False]) w)"

text \<open>
  The \<^verbatim>\<open>catch\<close> block of lines 211 to 216; what it catches is a
  \<^verbatim>\<open>SyntaxError\<close> or the \<^verbatim>\<open>Error\<close> of line 204, both with a message.
\<close>

definition updateWithAI_invalid :: "jsstring \<Rightarrow> world \<Rightarrow> world" where
  "updateWithAI_invalid message w =
     setState (Object [P_error (Some (js ''AI response contains invalid JavaScript code: ''
                                      @ message @ js ''. Try refining the prompt.'')),
                       P_loadingStatus St_error,
                       P_isUpdating False]) w"

text \<open>The inner \<^verbatim>\<open>try\<close> of lines 200 to 217.\<close>

definition updateWithAI_apply :: "env \<Rightarrow> jsstring \<Rightarrow> world \<Rightarrow> world" where
  "updateWithAI_apply e aiResponse w =
     (if isValidJavaScript e aiResponse then
        (case new_Function e [] aiResponse of
           Some message \<Rightarrow> updateWithAI_invalid message w
         | None \<Rightarrow>
             setState (Function (\<lambda>prevState.
               [P_code (trim aiResponse),
                P_isUpdating False,
                P_history (history prevState @ [code prevState])])) w)
      else updateWithAI_invalid (js ''Invalid JavaScript code'') w)"

text \<open>The outer \<^verbatim>\<open>try\<close> of lines 161 to 223, after \<^verbatim>\<open>fetch\<close> has settled.\<close>

definition updateWithAI_response :: "env \<Rightarrow> fetched \<Rightarrow> world \<Rightarrow> world" where
  "updateWithAI_response e f w =
     (case f of
        Rejected err \<Rightarrow> updateWithAI_catch err w
      | Responded r \<Rightarrow>
          if \<not> ok r then
            updateWithAI_catch
              (Thrown (js ''AI API responded with status '' @ numberToString (status r))) w
          else
            (case body r of
               None \<Rightarrow> updateWithAI_catch (Thrown (TypeError_message e (js ''getReader''))) w
             | Some b \<Rightarrow>
                 (case read_fault b of
                    Some err \<Rightarrow> updateWithAI_catch err w
                  | None \<Rightarrow>
                      if startsWith (trim (accumulate [] (chunks b))) (js ''<'') then
                        updateWithAI_catch
                          (Thrown (js ''Received HTML instead of JavaScript. There may be a server issue.'')) w
                      else updateWithAI_apply e (accumulate [] (chunks b)) w)))"

definition updateWithAI :: "env \<Rightarrow> state \<Rightarrow> fetched \<Rightarrow> world \<Rightarrow> world" where
  "updateWithAI e st f w =
     (if trim (aiPrompt st) = [] then
        setState (Object [P_error (Some (js ''Please enter a prompt for the AI''))]) w
      else
        updateWithAI_response e f
          (setState (Object [P_isUpdating True, P_error None]) w))"

section \<open>The other handlers\<close>

text \<open>The callback that \<^verbatim>\<open>debounce\<close> is given on line 226.\<close>

definition commitPrompt :: "jsstring \<Rightarrow> world \<Rightarrow> world" where
  "commitPrompt v w = setState (Object [P_aiPrompt v]) w"


definition undoLastChange :: "state \<Rightarrow> world \<Rightarrow> world" where
  "undoLastChange st w =
     (if length (history st) > 0 then
        setState (Function (\<lambda>prevState.
          [P_code (last (history st)),
           P_history (butlast (history prevState))])) w
      else w)"

text \<open>The \<^verbatim>\<open>onChange\<close> of the text area (line 312).\<close>

definition editCode :: "jsstring \<Rightarrow> world \<Rightarrow> world" where
  "editCode v w = setState (Object [P_code v]) w"

text \<open>Which of the three contents the preview panel shows (lines 327 to 344).\<close>

datatype panel =
    LoadingContent status
  | ErrorContent jsstring
  | PreviewContent "element option"

definition previewPanel :: "state \<Rightarrow> panel" where
  "previewPanel st =
     (if loadingStatus st \<noteq> St_ready \<and> loadingStatus st \<noteq> St_error then
        LoadingContent (loadingStatus st)
      else
        (case error st of
           Some message \<Rightarrow>
             if message \<noteq> [] then ErrorContent message else PreviewContent (preview st)
         | None \<Rightarrow> PreviewContent (preview st)))"


section \<open>Sessions\<close>





section \<open>The names line 226 refers to\<close>

text \<open>
  \<^verbatim>\<open>const debouncedOnChange = useCallback(debounce((value) => {...}, 300), [])\<close>
  is evaluated in every render of \<^verbatim>\<open>MainComponent\<close>. An identifier resolves through
  the bindings of the component function (its parameters and \<^verbatim>\<open>const\<close>
  declarations), then those of the module (the import on line 1 and the top-level
  declarations), then the global object of the host; an identifier bound nowhere
  throws a \<^verbatim>\<open>ReferenceError\<close>. The identifiers evaluated on line 226, in order, are
  \<^verbatim>\<open>useCallback\<close> and \<^verbatim>\<open>debounce\<close>; the body of the arrow function is not run.
\<close>

definition MainComponent_bindings :: "string list" where
  "MainComponent_bindings =
     [''initialCode'', ''previewProps'', ''noInlineStyles'', ''state'', ''setState'',
      ''refs'', ''updateState'', ''loadBabel'', ''transpileCode'', ''renderComponent'',
      ''updateWithAI'', ''debouncedOnChange'', ''saveCustomPrompt'', ''isValidJavaScript'',
      ''commonPrompts'', ''undoLastChange'']"

definition module_bindings :: "string list" where
  "module_bindings =
     [''React'', ''useState'', ''useEffect'', ''useCallback'', ''useRef'',
      ''SYSTEM_PROMPT'', ''examples'', ''MAX_RETRIES'', ''BABEL_CDN_URL'',
      ''MainComponent'', ''LoadingContent'', ''ErrorContent'', ''StoryComponent'']"

definition resolves :: "string list \<Rightarrow> string \<Rightarrow> bool" where
  "resolves globals x \<longleftrightarrow>
     x \<in> set MainComponent_bindings \<or> x \<in> set module_bindings \<or> x \<in> set globals"

datatype completion = Normal | ReferenceError string

fun evaluate_identifiers :: "string list \<Rightarrow> string list \<Rightarrow> completion" where
  "evaluate_identifiers globals [] = Normal"
| "evaluate_identifiers globals (x # xs) =
     (if resolves globals x then evaluate_identifiers globals xs
      else ReferenceError (x @ '' is not defined''))"

definition debouncedOnChange_initializer :: "string list \<Rightarrow> completion" where
  "debouncedOnChange_initializer globals =
     evaluate_identifiers globals [''useCallback'', ''debounce'']"

text \<open>The global names the file itself relies on.\<close>

definition host_globals :: "string list" where
  "host_globals =
     [''process'', ''localStorage'', ''JSON'', ''Promise'', ''document'', ''window'',
      ''Error'', ''Function'', ''fetch'', ''TextDecoder'', ''module'']"

section \<open>Sample inputs\<close>

text \<open>
  \<^verbatim>\<open>React.createElement(type, config)\<close> as React 18 implements it for a call with
  two arguments: it never throws and does not look at what kind of value the type is (a
  development build logs a warning for a type that is not a component; the type is used
  only when the element is rendered). The props of the element are the own enumerable
  properties of \<^verbatim>\<open>config\<close> without the reserved names, completed from the
  \<^verbatim>\<open>defaultProps\<close> of the type. The key and the ref of the element are not part of
  \<open>element\<close>, and a function value carries no properties here.
\<close>

fun enumerable_properties :: "jsvalue \<Rightarrow> (jsstring \<times> jsvalue) list" where
  "enumerable_properties (Obj ps) = ps"
| "enumerable_properties (Str s) = map (\<lambda>i. (numberToString i, Str [s ! i])) [0..<length s]"
| "enumerable_properties v = []"

definition RESERVED_PROPS :: "jsstring list" where
  "RESERVED_PROPS = [js ''key'', js ''ref'', js ''__self'', js ''__source'']"

definition get_property :: "(jsstring \<times> jsvalue) list \<Rightarrow> jsstring \<Rightarrow> jsvalue" where
  "get_property ps k = (case map_of ps k of Some v \<Rightarrow> v | None \<Rightarrow> Undefined)"

definition set_property ::
  "jsstring \<Rightarrow> jsvalue \<Rightarrow> (jsstring \<times> jsvalue) list \<Rightarrow> (jsstring \<times> jsvalue) list" where
  "set_property k v ps =
     (if k \<in> set (map fst ps) then map (\<lambda>(k', v'). if k' = k then (k', v) else (k', v')) ps
      else ps @ [(k, v)])"

definition defaultProps_of :: "jsvalue \<Rightarrow> (jsstring \<times> jsvalue) list" where
  "defaultProps_of t =
     (case t of
        Obj ps \<Rightarrow> enumerable_properties (get_property ps (js ''defaultProps''))
      | _ \<Rightarrow> [])"

definition React_createElement :: "jsvalue \<Rightarrow> jsvalue \<Rightarrow> thrown + element" where
  "React_createElement t config =
     Inr \<lparr>el_type = t,
          el_props = Obj (foldl (\<lambda>props (k, v).
                                   if get_property props k = Undefined then set_property k v props
                                   else props)
                                (filter (\<lambda>(k, v). k \<notin> set RESERVED_PROPS)
                                   (enumerable_properties config))
                                (defaultProps_of t))\<rparr>"

text \<open>
  A platform where the script loads, the compiler returns its input, every text
  parses, and the compiled text runs to its end without touching the module.
\<close>

definition sample_env :: env where
  "sample_env =
     \<lparr>process_env_BABEL_CDN_URL = None, previewProps = Obj [], noInlineStyles = False,
      window_Babel = Some (\<lambda>c. Inr c), script_loads = True,
      TypeError_message = (\<lambda>name. js ''Cannot read properties of undefined''),
      new_Function = (\<lambda>params body. None),
      call_Function = (\<lambda>body m. Inr m),
      createElement = React_createElement, setItem_throws = False\<rparr>"

text \<open>The same platform while the script cannot be fetched.\<close>

definition offline_env :: env where
  "offline_env = sample_env\<lparr>script_loads := False\<rparr>"


definition sample_world :: world where
  "sample_world = mount (js ''var x = 1;'') None"

text \<open>The sample session after its first render and a committed prompt.\<close>

definition ready_world :: world where
  "ready_world = commitPrompt (js ''Add a button'') (renderEffect sample_env sample_world)"


text \<open>The sample session after a first render that could not fetch the compiler.\<close>

definition failed_world :: world where
  "failed_world = renderEffect offline_env sample_world"




text \<open>The bytes of \<^verbatim>\<open>var y;\<close>, and the two bytes of the letter e with an acute accent.\<close>

definition var_y :: bytes where
  "var_y = [0x76, 0x61, 0x72, 0x20, 0x79, 0x3B]"

definition e_acute :: bytes where
  "e_acute = [0xC3, 0xA9]"

definition ok_response :: "bytes list \<Rightarrow> fetched" where
  "ok_response cs =
     Responded \<lparr>ok = True, status = 200, body = Some \<lparr>chunks = cs, read_fault = None\<rparr>\<rparr>"


text \<open>A response with status 502 and an empty body.\<close>

definition bad_gateway :: fetched where
  "bad_gateway =
     Responded \<lparr>ok = False, status = 502, body = Some \<lparr>chunks = [], read_fault = None\<rparr>\<rparr>"

section \<open>Basic facts\<close>

lemma setState_Function: "setState (Function f) w = w"
  by (simp add: setState_def updateState_def)

lemma ui_setState_Object: "ui (setState (Object ps) w) = foldl assign (ui w) ps"
  by (simp add: setState_def updateState_def)

lemma refs_setState [simp]:
  "babel_current (setState u w) = babel_current w"
  "babelLoaded_current (setState u w) = babelLoaded_current w"
  "document_head (setState u w) = document_head w"
  by (simp_all add: setState_def)


lemma createElement_empty:
  "React_createElement (Obj []) (Obj []) = Inr \<lparr>el_type = Obj [], el_props = Obj []\<rparr>"
  by (simp add: React_createElement_def defaultProps_of_def get_property_def)

lemmas sample_defs = renderEffect_def renderTrigger_def renderComponent_def transpileCode_def
  loadBabel_def await_promise_def script_onload_def script_onerror_def transform_call_def
  transpileCode_catch_def execute_def execute_catch_def setState_def updateState_def mount_def
  initialState_def sample_env_def sample_world_def ready_world_def commitPrompt_def
  createElement_empty trim_def js_def isWhiteSpace_def BABEL_CDN_URL_def

lemmas decode_defs = TextDecoder_decode_def utf8_lead_def utf8_initial_def stripBOM_def utf16_def

lemma ui_sample_world:
  "ui sample_world =
     \<lparr>error = None, loadingStatus = St_idle, preview = None, code = js ''var x = 1;'',
      streamingResponse = [], aiPrompt = [], isUpdating = False,
      retryCount = 0, customPrompts = [], history = []\<rparr>"
  by (simp add: sample_world_def mount_def initialState_def)

lemma ui_ready_world:
  "ui ready_world =
     \<lparr>error = None, loadingStatus = St_ready,
      preview = Some \<lparr>el_type = Obj [], el_props = Obj []\<rparr>, code = js ''var x = 1;'',
      streamingResponse = [], aiPrompt = js ''Add a button'', isUpdating = False,
      retryCount = 0, customPrompts = [], history = []\<rparr>"
  by (simp add: sample_defs)

lemma ui_failed_world:
  "ui failed_world =
     \<lparr>error = Some (js ''Error during transpilation: Failed to load Babel''),
      loadingStatus = St_error, preview = None, code = js ''var x = 1;'',
      streamingResponse = [], aiPrompt = [], isUpdating = False,
      retryCount = 0, customPrompts = [], history = []\<rparr>"
  by (simp add: failed_world_def offline_env_def sample_defs)

lemma refs_failed_world:
  "babel_current failed_world = None" "babelLoaded_current failed_world = False"
  by (simp_all add: failed_world_def offline_env_def sample_defs)

lemma accumulate_var_y: "accumulate [] [var_y] = js ''var y;''"
  by (simp add: var_y_def decode_defs js_def)

subsection \<open>What a render cycle can do to the state\<close>

lemma execute_ui:
  "(\<exists>m. ui (execute e c w)
          = (ui w)\<lparr>error := Some (js ''Runtime error: '' @ m), loadingStatus := St_error\<rparr>)
   \<or> (\<exists>el. ui (execute e c w) = (ui w)\<lparr>preview := Some el, loadingStatus := St_ready\<rparr>)
   \<or> ui (execute e c w) = ui w"
  by (auto simp: execute_def execute_catch_def ui_setState_Object
      split: option.splits sum.splits thrown.splits)

lemma await_ui:
  "ui (fst (await_promise e (snd (loadBabel e w)) (fst (loadBabel e w)))) = ui w
     \<and> snd (await_promise e (snd (loadBabel e w)) (fst (loadBabel e w))) = None
   \<or> ui (fst (await_promise e (snd (loadBabel e w)) (fst (loadBabel e w))))
       = (ui w)\<lparr>loadingStatus := St_idle\<rparr>
     \<and> snd (await_promise e (snd (loadBabel e w)) (fst (loadBabel e w))) = None
   \<or> ui (fst (await_promise e (snd (loadBabel e w)) (fst (loadBabel e w))))
       = (ui w)\<lparr>error := Some (js ''Failed to load Babel''), loadingStatus := St_error\<rparr>
     \<and> snd (await_promise e (snd (loadBabel e w)) (fst (loadBabel e w)))
       = Some (Thrown (js ''Failed to load Babel''))"
  by (simp add: loadBabel_def await_promise_def script_onload_def script_onerror_def
      setState_def updateState_def)

lemma transpileCode_catch_ui:
  "(\<exists>m. ui (fst (transpileCode_catch err w))
          = (ui w)\<lparr>error := Some m, loadingStatus := St_error\<rparr>
        \<and> snd (transpileCode_catch err w) = ReturnsNull)
   \<or> ui (fst (transpileCode_catch err w)) = ui w"
  by (auto simp: transpileCode_catch_def ui_setState_Object split: thrown.splits)

lemma transform_call_ui:
  "(\<exists>m. ui (fst (transform_call e c w)) = (ui w)\<lparr>error := Some m, loadingStatus := St_error\<rparr>
        \<and> snd (transform_call e c w) = ReturnsNull)
   \<or> ui (fst (transform_call e c w)) = ui w"
proof (cases "babel_current w")
  case None
  with transpileCode_catch_ui [of "Thrown (TypeError_message e (js ''transform''))" w]
  show ?thesis by (simp add: transform_call_def)
next
  case (Some transform)
  show ?thesis
  proof (cases "transform c")
    case (Inl err)
    with Some transpileCode_catch_ui [of err w] show ?thesis
      by (simp add: transform_call_def)
  next
    case (Inr t)
    with Some show ?thesis by (simp add: transform_call_def)
  qed
qed

lemma transpileCode_ui:
  "(\<exists>m. ui (fst (transpileCode e c w)) = (ui w)\<lparr>error := Some m, loadingStatus := St_error\<rparr>
        \<and> snd (transpileCode e c w) = ReturnsNull)
   \<or> ui (fst (transpileCode e c w)) = ui w
   \<or> ui (fst (transpileCode e c w)) = (ui w)\<lparr>loadingStatus := St_idle\<rparr>"
proof (cases "await_promise e (snd (loadBabel e w)) (fst (loadBabel e w))")
  case (Pair w2 rejected)
  show ?thesis
  proof (cases rejected)
    case (Some err)
    with Pair await_ui [of e w] show ?thesis
      by (auto simp: transpileCode_def transpileCode_catch_def ui_setState_Object)
  next
    case None
    let ?c = "if noInlineStyles e then removeInlineStyles c else c"
    from None Pair have t: "transpileCode e c w = transform_call e ?c w2"
      by (simp add: transpileCode_def)
    from None Pair await_ui [of e w]
    have "ui w2 = ui w \<or> ui w2 = (ui w)\<lparr>loadingStatus := St_idle\<rparr>" by auto
    with transform_call_ui [of e ?c w2] show ?thesis
      unfolding t by auto
  qed
qed

lemma renderComponent_ui:
  "ui (renderComponent e st w) = ui w
   \<or> ui (renderComponent e st w) = (ui w)\<lparr>loadingStatus := St_idle\<rparr>
   \<or> (\<exists>m. ui (renderComponent e st w) = (ui w)\<lparr>error := Some m, loadingStatus := St_error\<rparr>)
   \<or> (\<exists>el. ui (renderComponent e st w)
           = (ui w)\<lparr>preview := Some el, loadingStatus := St_ready\<rparr>)"
proof (cases "transpileCode e (code st) w")
  case (Pair w1 t)
  from transpileCode_ui [of e "code st" w] Pair
  consider (err) m where "ui w1 = (ui w)\<lparr>error := Some m, loadingStatus := St_error\<rparr>"
      "t = ReturnsNull"
    | (same) "ui w1 = ui w" | (idle) "ui w1 = (ui w)\<lparr>loadingStatus := St_idle\<rparr>"
    by auto
  then show ?thesis
  proof cases
    case err
    with Pair show ?thesis by (auto simp: renderComponent_def)
  next
    case same
    show ?thesis
    proof (cases t)
      case (TranspiledCode a)
      with Pair same execute_ui [of e a w1] show ?thesis
        by (cases "a = []") (auto simp: renderComponent_def)
    qed (use Pair same in \<open>simp_all add: renderComponent_def\<close>)
  next
    case idle
    show ?thesis
    proof (cases t)
      case (TranspiledCode a)
      with Pair idle execute_ui [of e a w1] show ?thesis
        by (cases "a = []") (auto simp: renderComponent_def)
    qed (use Pair idle in \<open>simp_all add: renderComponent_def\<close>)
  qed
qed



subsection \<open>What the handlers do to the state\<close>

lemma updateWithAI_success:
  assumes "trim (aiPrompt st) \<noteq> []" "ok r" "body r = Some b" "read_fault b = None"
    "\<not> startsWith (trim (accumulate [] (chunks b))) (js ''<'')"
    "isValidJavaScript e (accumulate [] (chunks b))"
  shows "updateWithAI e st (Responded r) w
           = setState (Object [P_isUpdating True, P_error None]) w"
  using assms
  by (simp add: updateWithAI_def updateWithAI_response_def updateWithAI_apply_def
      isValidJavaScript_def setState_Function)

lemma undoLastChange_id: "undoLastChange st w = w"
  by (simp add: undoLastChange_def setState_Function)










subsection \<open>The session with two error episodes\<close>








section \<open>The assistant update and undo\<close>

text \<open>
  Claim C1: a submission whose request succeeds and whose text passes the markup check
  and the syntax check pushes the old code onto \<open>history\<close>, replaces \<open>code\<close> with
  the trimmed text and clears \<open>isUpdating\<close>. The code hands the arrow function of
  lines 206 to 210 to \<^verbatim>\<open>updateState\<close>, which spreads it instead of calling it: in
  the sample session, after the response \<^verbatim>\<open>var y;\<close> has arrived and passed both
  checks, \<open>code\<close> is still the old text, \<open>history\<close> is still empty and
  \<open>isUpdating\<close> is still set.
\<close>

theorem updateWithAI_success_keeps_code:
  "trim (accumulate [] [var_y]) = js ''var y;''
   \<and> \<not> startsWith (trim (accumulate [] [var_y])) (js ''<'')
   \<and> isValidJavaScript sample_env (accumulate [] [var_y])
   \<and> code (ui (updateWithAI sample_env (ui ready_world) (ok_response [var_y]) ready_world))
       = js ''var x = 1;''
   \<and> history (ui (updateWithAI sample_env (ui ready_world) (ok_response [var_y]) ready_world))
       = []
   \<and> isUpdating (ui (updateWithAI sample_env (ui ready_world) (ok_response [var_y]) ready_world))"
proof -
  have trimmed: "trim (accumulate [] [var_y]) = js ''var y;''"
    unfolding accumulate_var_y by (simp add: trim_def isWhiteSpace_def js_def)
  have checks: "\<not> startsWith (trim (accumulate [] [var_y])) (js ''<'')"
    "isValidJavaScript sample_env (accumulate [] [var_y])"
    unfolding accumulate_var_y
    by (simp_all add: isValidJavaScript_def sample_env_def startsWith_def trim_def
        isWhiteSpace_def js_def)
  have prompt: "trim (aiPrompt (ui ready_world)) \<noteq> []"
    by (simp add: ui_ready_world trim_def isWhiteSpace_def js_def)
  from checks prompt
  have "updateWithAI sample_env (ui ready_world) (ok_response [var_y]) ready_world
          = setState (Object [P_isUpdating True, P_error None]) ready_world"
    unfolding ok_response_def by (simp add: updateWithAI_success del: accumulate.simps)
  with trimmed checks show ?thesis
    by (simp add: ui_setState_Object ui_ready_world del: accumulate.simps)
qed


text \<open>
  Claim C4: after a submission that fails for any reason the status is \<open>error\<close>, the
  message is recorded, \<open>isUpdating\<close> is cleared and the code is unchanged. The
  \<^verbatim>\<open>catch\<close> of lines 218 to 223, which takes a failed request, a response that is
  not \<^verbatim>\<open>ok\<close> and a response that looks like markup, does not assign
  \<open>loadingStatus\<close>, unlike the \<^verbatim>\<open>catch\<close> of lines 211 to 216: in the sample
  session a response with status 502 records the message and clears \<open>isUpdating\<close>, and
  the status stays \<open>ready\<close>.
\<close>

theorem updateWithAI_bad_gateway_status_ready:
  "loadingStatus (ui (updateWithAI sample_env (ui ready_world) bad_gateway ready_world))
     = St_ready
   \<and> error (ui (updateWithAI sample_env (ui ready_world) bad_gateway ready_world))
       = Some (js ''AI update failed: AI API responded with status 502'')
   \<and> \<not> isUpdating (ui (updateWithAI sample_env (ui ready_world) bad_gateway ready_world))
   \<and> code (ui (updateWithAI sample_env (ui ready_world) bad_gateway ready_world))
       = code (ui ready_world)"
  by (simp add: ui_ready_world updateWithAI_def updateWithAI_response_def updateWithAI_catch_def
      bad_gateway_def ui_setState_Object numberToString_def digits.simps trim_def js_def
      isWhiteSpace_def)

text \<open>
  Claim C10: the accumulated text does not depend on how the bytes of the response are
  split into chunks. Every chunk gets a decoder of its own, which flushes at the end of
  the chunk: the two bytes of one letter give that letter when they arrive together,
  and two replacement characters when they arrive in two chunks.
\<close>

theorem accumulate_depends_on_chunks:
  "concat [take 1 e_acute, drop 1 e_acute] = concat [e_acute]
   \<and> accumulate [] [e_acute] = [0xE9]
   \<and> TextDecoder_decode (concat [take 1 e_acute, drop 1 e_acute]) = [0xE9]
   \<and> accumulate [] [take 1 e_acute, drop 1 e_acute] = [0xFFFD, 0xFFFD]"
  by (simp add: e_acute_def decode_defs)

section \<open>The render cycle and the loader\<close>

text \<open>
  Claim C3, as stated: a compiled text that runs to its end and never assigns
  \<^verbatim>\<open>module.exports\<close> makes the execute step end in a runtime error. It fails on
  the sample platform, where the compiled text leaves the module as it was: the empty
  object goes to \<^verbatim>\<open>React.createElement\<close>, the status becomes \<open>ready\<close>, no error
  is recorded, and the preview is an element whose type is the empty object.
\<close>

theorem execute_without_export_is_ready:
  "call_Function sample_env (js ''var x = 1;'') \<lparr>exports = Obj []\<rparr> = Inr \<lparr>exports = Obj []\<rparr>
   \<and> loadingStatus (ui (execute sample_env (js ''var x = 1;'') sample_world)) \<noteq> St_error
   \<and> error (ui (execute sample_env (js ''var x = 1;'') sample_world)) = None
   \<and> preview (ui (execute sample_env (js ''var x = 1;'') sample_world))
       = Some \<lparr>el_type = Obj [], el_props = Obj []\<rparr>"
  by (simp add: execute_def ui_setState_Object ui_sample_world sample_env_def
      createElement_empty)

text \<open>
  Claim C3, amended: when the compiled text runs to its end, the execute step hands
  whatever \<^verbatim>\<open>module.exports\<close> then holds (the empty object when nothing was
  assigned) to \<^verbatim>\<open>React.createElement\<close> without looking at it, and when that call
  returns an element the step stores the element as the preview, sets the status to
  \<open>ready\<close> and leaves the error field as it was. So no runtime error comes out of
  the step unless the construction of the function, its call or
  \<^verbatim>\<open>React.createElement\<close> throws.
\<close>

theorem execute_outcome:
  "new_Function e [js ''React'', js ''useState'', js ''exports'', js ''module''] c = None
     \<and> call_Function e c \<lparr>exports = Obj []\<rparr> = Inr m
     \<and> createElement e (exports m) (previewProps e) = Inr el
   \<longrightarrow> ui (execute e c w) = (ui w)\<lparr>preview := Some el, loadingStatus := St_ready\<rparr>
       \<and> error (ui (execute e c w)) = error (ui w)
       \<and> loadingStatus (ui (execute e c w)) \<noteq> St_error"
  by (simp add: execute_def ui_setState_Object)

text \<open>
  Claim C3, amended, at the sample platform: nothing is assigned to
  \<^verbatim>\<open>module.exports\<close> and the step ends with the status \<open>ready\<close>.
\<close>

theorem execute_outcome_witness:
  "new_Function sample_env [js ''React'', js ''useState'', js ''exports'', js ''module'']
      (js ''var x = 1;'') = None
   \<and> call_Function sample_env (js ''var x = 1;'') \<lparr>exports = Obj []\<rparr> = Inr \<lparr>exports = Obj []\<rparr>
   \<and> createElement sample_env (exports \<lparr>exports = Obj []\<rparr>) (previewProps sample_env)
        = Inr \<lparr>el_type = Obj [], el_props = Obj []\<rparr>
   \<and> ui (execute sample_env (js ''var x = 1;'') sample_world)
        = (ui sample_world)\<lparr>preview := Some \<lparr>el_type = Obj [], el_props = Obj []\<rparr>,
                             loadingStatus := St_ready\<rparr>
   \<and> loadingStatus (ui (execute sample_env (js ''var x = 1;'') sample_world)) \<noteq> St_error"
proof -
  have h: "new_Function sample_env [js ''React'', js ''useState'', js ''exports'', js ''module'']
      (js ''var x = 1;'') = None
   \<and> call_Function sample_env (js ''var x = 1;'') \<lparr>exports = Obj []\<rparr> = Inr \<lparr>exports = Obj []\<rparr>
   \<and> createElement sample_env (exports \<lparr>exports = Obj []\<rparr>) (previewProps sample_env)
        = Inr \<lparr>el_type = Obj [], el_props = Obj []\<rparr>"
    by (simp add: sample_env_def createElement_empty)
  with execute_outcome [of sample_env "js ''var x = 1;''" "\<lparr>exports = Obj []\<rparr>"
      "\<lparr>el_type = Obj [], el_props = Obj []\<rparr>" sample_world]
  show ?thesis by blast
qed




text \<open>
  Claim C6, as stated: when the status is \<open>ready\<close> or \<open>error\<close>, no update is in
  flight and the code is changed to a non-blank text, a render cycle starts. It fails at
  the sample session after its first render: the code is edited, the effect of lines 261
  to 269 does not call \<^verbatim>\<open>renderComponent\<close>, and the status stays \<open>ready\<close>.
\<close>

theorem edit_when_ready_starts_no_render:
  "loadingStatus (ui ready_world) = St_ready
   \<and> \<not> isUpdating (ui ready_world)
   \<and> trim (js ''var y;'') \<noteq> []
   \<and> \<not> renderTrigger (ui (editCode (js ''var y;'') ready_world))
   \<and> loadingStatus (ui (renderEffect sample_env (editCode (js ''var y;'') ready_world)))
       = St_ready"
  by (simp add: ui_ready_world editCode_def ui_setState_Object renderEffect_def
      renderTrigger_def trim_def js_def isWhiteSpace_def)

text \<open>
  Claim C6, amended: a change of the code starts a render cycle exactly when the status
  is \<open>idle\<close>, the new code is not blank and no update is in flight. In every other
  case the effect leaves the edited state as it is; in particular, when the status is
  \<open>ready\<close> or \<open>error\<close>, no render cycle starts and the status keeps its value.
\<close>

theorem renderEffect_after_edit:
  "(loadingStatus (ui w) = St_ready \<or> loadingStatus (ui w) = St_error
      \<longrightarrow> renderEffect e (editCode v w) = editCode v w
          \<and> loadingStatus (ui (editCode v w)) = loadingStatus (ui w))
   \<and> (loadingStatus (ui w) = St_idle \<and> trim v \<noteq> [] \<and> \<not> isUpdating (ui w)
      \<longrightarrow> renderTrigger (ui (editCode v w))
          \<and> renderEffect e (editCode v w)
              = renderComponent e (ui (editCode v w)) (editCode v w))
   \<and> (\<not> (loadingStatus (ui w) = St_idle \<and> trim v \<noteq> [] \<and> \<not> isUpdating (ui w))
      \<longrightarrow> \<not> renderTrigger (ui (editCode v w))
          \<and> renderEffect e (editCode v w) = editCode v w
          \<and> loadingStatus (ui (editCode v w)) = loadingStatus (ui w))"
  by (auto simp: renderEffect_def renderTrigger_def editCode_def ui_setState_Object)

text \<open>
  Claim C6, amended, at the sample session: after the first render an edit starts
  nothing; before it an edit to a text that is not blank starts a render cycle and an
  edit to a blank text starts nothing.
\<close>

theorem renderEffect_after_edit_witness:
  "loadingStatus (ui ready_world) = St_ready
   \<and> renderEffect sample_env (editCode (js ''var y;'') ready_world)
       = editCode (js ''var y;'') ready_world
   \<and> loadingStatus (ui sample_world) = St_idle
   \<and> trim (js ''var y;'') \<noteq> []
   \<and> \<not> isUpdating (ui sample_world)
   \<and> renderEffect sample_env (editCode (js ''var y;'') sample_world)
       = renderComponent sample_env (ui (editCode (js ''var y;'') sample_world))
           (editCode (js ''var y;'') sample_world)
   \<and> trim (js ''  '') = []
   \<and> renderEffect sample_env (editCode (js ''  '') sample_world)
       = editCode (js ''  '') sample_world"
proof -
  have r: "loadingStatus (ui ready_world) = St_ready"
    by (simp add: ui_ready_world)
  have i: "loadingStatus (ui sample_world) = St_idle \<and> trim (js ''var y;'') \<noteq> []
      \<and> \<not> isUpdating (ui sample_world)"
    by (simp add: ui_sample_world trim_def js_def isWhiteSpace_def)
  have blank: "trim (js ''  '') = []"
    by (simp add: trim_def js_def isWhiteSpace_def)
  then have other: "\<not> (loadingStatus (ui sample_world) = St_idle \<and> trim (js ''  '') \<noteq> []
      \<and> \<not> isUpdating (ui sample_world))"
    by simp
  from r i blank other renderEffect_after_edit [of ready_world sample_env "js ''var y;''"]
    renderEffect_after_edit [of sample_world sample_env "js ''var y;''"]
    renderEffect_after_edit [of sample_world sample_env "js ''  ''"]
  show ?thesis by blast
qed

text \<open>
  Claim C9: a render cycle that succeeds (it ends with the status \<open>ready\<close>) changes
  only \<open>preview\<close> and \<open>loadingStatus\<close>; the error field keeps its value, so an error
  message recorded before is still there afterwards and the preview panel still shows
  the error content with that message.
\<close>

theorem successful_render_keeps_error:
  "loadingStatus (ui (renderComponent e st w)) = St_ready \<longrightarrow>
     ui (renderComponent e st w)
       = (ui w)\<lparr>preview := preview (ui (renderComponent e st w)), loadingStatus := St_ready\<rparr>
     \<and> error (ui (renderComponent e st w)) = error (ui w)
     \<and> (error (ui w) = Some message \<and> message \<noteq> []
          \<longrightarrow> previewPanel (ui (renderComponent e st w)) = ErrorContent message)"
  using renderComponent_ui [of e st w] by (auto simp: previewPanel_def)

text \<open>
  Claim C9, at the sample session: the first render cannot fetch the compiler and
  fails, the next one succeeds and stores a preview, and the panel still shows the
  message of the first.
\<close>

theorem successful_render_keeps_error_witness:
  "loadingStatus (ui failed_world) = St_error
   \<and> loadingStatus (ui (renderComponent sample_env (ui failed_world) failed_world)) = St_ready
   \<and> preview (ui (renderComponent sample_env (ui failed_world) failed_world))
       = Some \<lparr>el_type = Obj [], el_props = Obj []\<rparr>
   \<and> error (ui (renderComponent sample_env (ui failed_world) failed_world))
       = Some (js ''Error during transpilation: Failed to load Babel'')
   \<and> previewPanel (ui (renderComponent sample_env (ui failed_world) failed_world))
       = ErrorContent (js ''Error during transpilation: Failed to load Babel'')"
proof -
  have ready:
    "loadingStatus (ui (renderComponent sample_env (ui failed_world) failed_world)) = St_ready"
    and pv: "preview (ui (renderComponent sample_env (ui failed_world) failed_world))
       = Some \<lparr>el_type = Obj [], el_props = Obj []\<rparr>"
    by (simp_all add: refs_failed_world ui_failed_world renderComponent_def transpileCode_def
        loadBabel_def await_promise_def script_onload_def transform_call_def execute_def
        setState_def updateState_def sample_env_def createElement_empty js_def)
  have m: "error (ui failed_world) = Some (js ''Error during transpilation: Failed to load Babel'')
      \<and> js ''Error during transpilation: Failed to load Babel'' \<noteq> []"
    by (simp add: ui_failed_world) (simp add: js_def)
  from ready m successful_render_keeps_error [of sample_env "ui failed_world" failed_world
      "js ''Error during transpilation: Failed to load Babel''"]
  have "error (ui (renderComponent sample_env (ui failed_world) failed_world))
          = error (ui failed_world)
     \<and> previewPanel (ui (renderComponent sample_env (ui failed_world) failed_world))
       = ErrorContent (js ''Error during transpilation: Failed to load Babel'')"
    by blast
  moreover have "loadingStatus (ui failed_world) = St_error"
    by (simp add: ui_failed_world)
  ultimately show ?thesis using ready pv m by simp
qed

section \<open>Retries\<close>




section \<open>The instruction input\<close>

text \<open>
  Claim C8: the change handler of the instruction input refers only to bound names.
  Line 226 calls \<^verbatim>\<open>debounce\<close>, which the file neither imports nor declares: with
  the global names the file relies on, the initializer of \<^verbatim>\<open>debouncedOnChange\<close>
  throws a \<^verbatim>\<open>ReferenceError\<close> in every render, so the handler never exists.
\<close>

theorem debounce_is_not_defined:
  "debouncedOnChange_initializer host_globals = ReferenceError ''debounce is not defined''"
  by (simp add: debouncedOnChange_initializer_def host_globals_def resolves_def
      MainComponent_bindings_def module_bindings_def)

end
